theory Spec2Isabelle
  imports Complex_Main "HOL-Library.Sublist"
begin

section \<open>Data model (src/types/index.ts)\<close>

text \<open>
  Minutes are whole numbers throughout the repository (the mock traffic source produces
  \<open>Math.floor\<close> of a draw, the threshold is read with \<open>parseInt\<close>), so a TypeScript
  \<open>number\<close> holding minutes is an \<open>int\<close>. An optional field (\<open>error?: string\<close>) is an
  \<open>option\<close>; \<open>None\<close> is JavaScript's \<open>undefined\<close>.
\<close>

record DeliveryRoute =
  origin :: string
  destination :: string
  waypoints :: "string list option"

datatype traffic_condition = light | moderate | heavy | severe

record TrafficData =
  estimatedDelayMinutes :: int
  normalDurationMinutes :: int
  currentDurationMinutes :: int
  trafficCondition :: traffic_condition
  route :: DeliveryRoute

record DelayNotificationInput =
  route :: DeliveryRoute
  customerEmail :: string
  delayThresholdMinutes :: int

record AIMessageRequest =
  delayMinutes :: int
  route :: DeliveryRoute
  trafficCondition :: traffic_condition

record AIMessageResponse =
  message :: string
  success :: bool
  error :: "string option"

record NotificationRequest =
  customerEmail :: string
  subject :: string
  message :: string
  delayMinutes :: int

record NotificationResponse =
  success :: bool
  messageId :: "string option"
  error :: "string option"

record WorkflowResult =
  delayDetected :: bool
  delayMinutes :: int
  notificationSent :: bool
  message :: "string option"
  error :: "string option"


text \<open>
  A value raised by \<open>throw\<close> or delivered by the engine as a failed step: an instance of
  \<open>Error\<close> carrying its message, or some other value. A step's outcome is the failure
  (\<open>Inl\<close>) or the value it returned (\<open>Inr\<close>).
\<close>

datatype thrown = Error string | NonError

type_synonym 'a outcome = "thrown + 'a"

section \<open>String helpers\<close>

text \<open>Decimal rendering of a whole number inside a template string.\<close>

definition digit_char :: "nat \<Rightarrow> char" where
  "digit_char d = ''0123456789'' ! d"

fun digits :: "nat \<Rightarrow> string" where
  "digits n = (if n < 10 then [digit_char n] else digits (n div 10) @ [digit_char (n mod 10)])"

declare digits.simps [simp del]

definition show_int :: "int \<Rightarrow> string" where
  "show_int i = (if i < 0 then CHR ''-'' # digits (nat (- i)) else digits (nat i))"

text \<open>An optional string inside a template string: \<open>undefined\<close> is rendered by name.\<close>

fun show_opt :: "string option \<Rightarrow> string" where
  "show_opt None = ''undefined''"
| "show_opt (Some s) = s"

text \<open>
  A string is the sequence of bytes of its text in UTF-8. \<open>String.prototype.trim\<close> removes
  white space and line terminators at both ends: tab, line feed, vertical tab, form feed,
  carriage return, space, U+00A0, U+1680, U+2000 to U+200A, U+2028, U+2029, U+202F, U+205F,
  U+3000 and U+FEFF. \<open>whitespaceCodes\<close> lists their encodings.
\<close>

definition whitespaceCodes :: "string list" where
  "whitespaceCodes =
     [[CHR 0x09], [CHR 0x0A], [CHR 0x0B], [CHR 0x0C], [CHR 0x0D], [CHR 0x20],
      [CHR 0xC2, CHR 0xA0], [CHR 0xE1, CHR 0x9A, CHR 0x80],
      [CHR 0xE2, CHR 0x80, CHR 0x80], [CHR 0xE2, CHR 0x80, CHR 0x81],
      [CHR 0xE2, CHR 0x80, CHR 0x82], [CHR 0xE2, CHR 0x80, CHR 0x83],
      [CHR 0xE2, CHR 0x80, CHR 0x84], [CHR 0xE2, CHR 0x80, CHR 0x85],
      [CHR 0xE2, CHR 0x80, CHR 0x86], [CHR 0xE2, CHR 0x80, CHR 0x87],
      [CHR 0xE2, CHR 0x80, CHR 0x88], [CHR 0xE2, CHR 0x80, CHR 0x89],
      [CHR 0xE2, CHR 0x80, CHR 0x8A], [CHR 0xE2, CHR 0x80, CHR 0xA8],
      [CHR 0xE2, CHR 0x80, CHR 0xA9], [CHR 0xE2, CHR 0x80, CHR 0xAF],
      [CHR 0xE2, CHR 0x81, CHR 0x9F], [CHR 0xE3, CHR 0x80, CHR 0x80],
      [CHR 0xEF, CHR 0xBB, CHR 0xBF]]"

text \<open>Remove from the front of \<open>s\<close> every leading occurrence of one of the \<open>codes\<close>.\<close>

function stripLeading :: "string list \<Rightarrow> string \<Rightarrow> string" where
  "stripLeading codes s =
     (case find (\<lambda>ws. ws \<noteq> [] \<and> prefix ws s) codes of
        None \<Rightarrow> s
      | Some ws \<Rightarrow> stripLeading codes (drop (length ws) s))"
  by pat_completeness auto
termination
  by (relation "measure (\<lambda>(codes, s). length s)") (auto simp: find_Some_iff prefix_def)

declare stripLeading.simps [simp del]

definition trim :: "string \<Rightarrow> string" where
  "trim s = rev (stripLeading (map rev whitespaceCodes) (rev (stripLeading whitespaceCodes s)))"

section \<open>Traffic service (src/services/trafficService.ts)\<close>

text \<open>
  The branch chain of \<open>getMockTrafficData\<close> that assigns \<open>trafficCondition\<close> from
  \<open>baseDelayMinutes\<close>.
\<close>

definition classifyDelay :: "int \<Rightarrow> traffic_condition" where
  "classifyDelay baseDelayMinutes =
     (if baseDelayMinutes < 15 then light
      else if baseDelayMinutes < 30 then moderate
      else if baseDelayMinutes < 45 then heavy
      else severe)"

text \<open>
  \<open>rnd\<close> is the value drawn by \<open>Math.random()\<close>, a number in \<open>[0, 1)\<close>, taken as a real.
\<close>

definition getMockTrafficData :: "real \<Rightarrow> DeliveryRoute \<Rightarrow> TrafficData" where
  "getMockTrafficData rnd r =
     (let baseDelayMinutes = \<lfloor>rnd * 60\<rfloor>;
          normalMinutes = 120;
          currentMinutes = normalMinutes + baseDelayMinutes;
          condition = classifyDelay baseDelayMinutes
      in \<lparr> estimatedDelayMinutes = baseDelayMinutes,
           normalDurationMinutes = normalMinutes,
           currentDurationMinutes = currentMinutes,
           TrafficData.trafficCondition = condition,
           TrafficData.route = r \<rparr>)"

definition validateRoute :: "DeliveryRoute \<Rightarrow> bool" where
  "validateRoute r =
     (origin r \<noteq> [] \<and> destination r \<noteq> [] \<and>
      length (trim (origin r)) > 0 \<and> length (trim (destination r)) > 0)"

definition getRealTrafficData :: "real \<Rightarrow> DeliveryRoute \<Rightarrow> TrafficData outcome" where
  "getRealTrafficData rnd r = Inr (getMockTrafficData rnd r)"

text \<open>
  \<open>rnd'\<close> is the draw the \<open>catch\<close> branch would make when it generates mock data again.
\<close>

definition getTrafficData :: "real \<Rightarrow> real \<Rightarrow> DeliveryRoute \<Rightarrow> TrafficData outcome" where
  "getTrafficData rnd rnd' r =
     (case getRealTrafficData rnd r of
        Inr t \<Rightarrow> Inr t
      | Inl e \<Rightarrow> Inr (getMockTrafficData rnd' r))"

section \<open>Notification service (services/notificationService.ts)\<close>

text \<open>
  \<open>now\<close> is the value of \<open>Date.now()\<close>; \<open>token\<close> is the text of
  \<open>Math.random().toString(36).substr(2, 9)\<close>.
\<close>

definition simulateEmailSending :: "int \<Rightarrow> string \<Rightarrow> NotificationRequest \<Rightarrow> NotificationResponse outcome" where
  "simulateEmailSending now token request =
     (let msgId = ''msg_'' @ show_int now @ ''_'' @ token
      in Inr \<lparr> NotificationResponse.success = True, messageId = Some msgId,
               NotificationResponse.error = None \<rparr>)"

definition notificationService_sendDelayNotification ::
  "int \<Rightarrow> string \<Rightarrow> NotificationRequest \<Rightarrow> NotificationResponse" where
  "notificationService_sendDelayNotification now token request =
     (case simulateEmailSending now token request of
        Inr mockResponse \<Rightarrow> mockResponse
      | Inl e \<Rightarrow> \<lparr> NotificationResponse.success = False, messageId = None,
                   NotificationResponse.error =
                     Some (case e of Error m \<Rightarrow> m | NonError \<Rightarrow> ''Notification service unavailable'') \<rparr>)"

definition createSMSMessage :: "NotificationRequest \<Rightarrow> string" where
  "createSMSMessage request =
     ''Freight Delay Alert: Your delivery is delayed by '' @
     show_int (NotificationRequest.delayMinutes request) @
     '' minutes due to traffic conditions. We apologize for the inconvenience. - Freight Team''"

definition simulateSMSSending ::
  "int \<Rightarrow> string \<Rightarrow> NotificationRequest \<Rightarrow> string \<Rightarrow> NotificationResponse outcome" where
  "simulateSMSSending now token request smsMessage =
     (let msgId = ''sms_'' @ show_int now @ ''_'' @ token
      in Inr \<lparr> NotificationResponse.success = True, messageId = Some msgId,
               NotificationResponse.error = None \<rparr>)"

definition notificationService_sendSMSNotification ::
  "int \<Rightarrow> string \<Rightarrow> NotificationRequest \<Rightarrow> NotificationResponse" where
  "notificationService_sendSMSNotification now token request =
     (let smsMessage = createSMSMessage request
      in case simulateSMSSending now token request smsMessage of
           Inr mockResponse \<Rightarrow> mockResponse
         | Inl e \<Rightarrow> \<lparr> NotificationResponse.success = False, messageId = None,
                      NotificationResponse.error =
                        Some (case e of Error m \<Rightarrow> m | NonError \<Rightarrow> ''SMS service unavailable'') \<rparr>)"

definition notificationService_validateRequest :: "NotificationRequest \<Rightarrow> bool" where
  "notificationService_validateRequest request =
     (NotificationRequest.customerEmail request \<noteq> [] \<and>
      CHR ''@'' \<in> set (NotificationRequest.customerEmail request) \<and>
      subject request \<noteq> [] \<and>
      NotificationRequest.message request \<noteq> [] \<and>
      NotificationRequest.delayMinutes request > 0)"

definition createDelaySubject :: "int \<Rightarrow> string" where
  "createDelaySubject minutes =
     ''Freight Delivery Delay Notice - '' @ show_int minutes @ '' Minutes''"

section \<open>Activities (src/activities/index.ts)\<close>

definition fetchTrafficData :: "real \<Rightarrow> real \<Rightarrow> DeliveryRoute \<Rightarrow> TrafficData outcome" where
  "fetchTrafficData rnd rnd' r =
     (if \<not> validateRoute r
      then Inl (Error ''Invalid route: Origin and destination are required'')
      else case getTrafficData rnd rnd' r of
             Inr t \<Rightarrow> Inr t
           | Inl e \<Rightarrow> Inl e)"

definition sendDelayNotification ::
  "int \<Rightarrow> string \<Rightarrow> NotificationRequest \<Rightarrow> NotificationResponse outcome" where
  "sendDelayNotification now token request =
     (if \<not> notificationService_validateRequest request
      then Inl (Error ''Invalid notification request: Missing required fields'')
      else Inr (notificationService_sendDelayNotification now token request))"

definition sendSMSNotification ::
  "int \<Rightarrow> string \<Rightarrow> NotificationRequest \<Rightarrow> NotificationResponse outcome" where
  "sendSMSNotification now token request =
     Inr (notificationService_sendSMSNotification now token request)"

definition shouldSendNotification :: "int \<Rightarrow> int \<Rightarrow> bool" where
  "shouldSendNotification minutes thresholdMinutes =
     (let shouldSend = minutes > thresholdMinutes in shouldSend)"

definition createNotificationRequest :: "string \<Rightarrow> string \<Rightarrow> int \<Rightarrow> NotificationRequest" where
  "createNotificationRequest email aiMessage minutes =
     (let subjectLine = createDelaySubject minutes
      in \<lparr> NotificationRequest.customerEmail = email,
           subject = subjectLine,
           NotificationRequest.message = aiMessage,
           NotificationRequest.delayMinutes = minutes \<rparr>)"

definition createAIMessageRequest :: "TrafficData \<Rightarrow> AIMessageRequest" where
  "createAIMessageRequest trafficData =
     \<lparr> AIMessageRequest.delayMinutes = estimatedDelayMinutes trafficData,
       AIMessageRequest.route = TrafficData.route trafficData,
       AIMessageRequest.trafficCondition = TrafficData.trafficCondition trafficData \<rparr>"


section \<open>Workflow steps and their outcomes\<close>

text \<open>
  The second argument of \<open>logWorkflowStep\<close> is an optional object of named values.
\<close>

datatype log_value =
    LText string
  | LOptText "string option"
  | LNumber int
  | LFlag bool
  | LRoute DeliveryRoute
  | LCondition traffic_condition

type_synonym log_data = "(string \<times> log_value) list option"

text \<open>
  A workflow body is a tree: it has returned (\<open>Done\<close>), it has let a failure escape to its
  caller (\<open>Fault\<close>), or it has scheduled one activity through the proxies returned by
  \<open>proxyActivities\<close>, with its arguments, and continues from that step's outcome. A body is
  ordinary TypeScript, so it could also read the clock (\<open>Date.now()\<close>), draw a random number
  (\<open>Math.random()\<close>) or look up an environment variable (\<open>process.env\<close>) inline and
  continue from the value; the last three nodes stand for such reads. They are not steps.
\<close>

datatype 'r workflow =
    Done 'r
  | Fault thrown
  | LogWorkflowStep string log_data "unit outcome \<Rightarrow> 'r workflow"
  | FetchTrafficData DeliveryRoute "TrafficData outcome \<Rightarrow> 'r workflow"
  | ShouldSendNotification int int "bool outcome \<Rightarrow> 'r workflow"
  | CreateAIMessageRequest TrafficData "AIMessageRequest outcome \<Rightarrow> 'r workflow"
  | GenerateAIMessage AIMessageRequest "AIMessageResponse outcome \<Rightarrow> 'r workflow"
  | CreateNotificationRequest string string int "NotificationRequest outcome \<Rightarrow> 'r workflow"
  | SendDelayNotification NotificationRequest "NotificationResponse outcome \<Rightarrow> 'r workflow"
  | SendSMSNotification NotificationRequest "NotificationResponse outcome \<Rightarrow> 'r workflow"
  | ReadClock "int \<Rightarrow> 'r workflow"
  | ReadRandom "real \<Rightarrow> 'r workflow"
  | ReadEnvironment string "string option \<Rightarrow> 'r workflow"

text \<open>\<open>await\<close> on a proxied call: a failed step throws, a completed one yields its value.\<close>

definition await :: "('a \<Rightarrow> 'r workflow) \<Rightarrow> 'a outcome \<Rightarrow> 'r workflow" where
  "await k out = (case out of Inl e \<Rightarrow> Fault e | Inr v \<Rightarrow> k v)"

text \<open>\<open>try { p } catch (error) { h error }\<close>: every failure escaping \<open>p\<close> enters \<open>h\<close>.\<close>

primrec try_catch :: "'r workflow \<Rightarrow> (thrown \<Rightarrow> 'r workflow) \<Rightarrow> 'r workflow" where
  "try_catch (Done r) h = Done r"
| "try_catch (Fault e) h = h e"
| "try_catch (LogWorkflowStep n d k) h = LogWorkflowStep n d (\<lambda>out. try_catch (k out) h)"
| "try_catch (FetchTrafficData r k) h = FetchTrafficData r (\<lambda>out. try_catch (k out) h)"
| "try_catch (ShouldSendNotification d t k) h = ShouldSendNotification d t (\<lambda>out. try_catch (k out) h)"
| "try_catch (CreateAIMessageRequest t k) h = CreateAIMessageRequest t (\<lambda>out. try_catch (k out) h)"
| "try_catch (GenerateAIMessage q k) h = GenerateAIMessage q (\<lambda>out. try_catch (k out) h)"
| "try_catch (CreateNotificationRequest c m d k) h = CreateNotificationRequest c m d (\<lambda>out. try_catch (k out) h)"
| "try_catch (SendDelayNotification q k) h = SendDelayNotification q (\<lambda>out. try_catch (k out) h)"
| "try_catch (SendSMSNotification q k) h = SendSMSNotification q (\<lambda>out. try_catch (k out) h)"
| "try_catch (ReadClock k) h = ReadClock (\<lambda>v. try_catch (k v) h)"
| "try_catch (ReadRandom k) h = ReadRandom (\<lambda>v. try_catch (k v) h)"
| "try_catch (ReadEnvironment name k) h = ReadEnvironment name (\<lambda>v. try_catch (k v) h)"

text \<open>The history of an execution: each scheduled step with the outcome recorded for it.\<close>

datatype step_call =
    LogWorkflowStepCall string log_data
  | FetchTrafficDataCall DeliveryRoute
  | ShouldSendNotificationCall int int
  | CreateAIMessageRequestCall TrafficData
  | GenerateAIMessageCall AIMessageRequest
  | CreateNotificationRequestCall string string int
  | SendDelayNotificationCall NotificationRequest
  | SendSMSNotificationCall NotificationRequest

datatype step_result =
    LogWorkflowStepResult "unit outcome"
  | FetchTrafficDataResult "TrafficData outcome"
  | ShouldSendNotificationResult "bool outcome"
  | CreateAIMessageRequestResult "AIMessageRequest outcome"
  | GenerateAIMessageResult "AIMessageResponse outcome"
  | CreateNotificationRequestResult "NotificationRequest outcome"
  | SendDelayNotificationResult "NotificationResponse outcome"
  | SendSMSNotificationResult "NotificationResponse outcome"

text \<open>
  A worker executes the steps. Everything outside the workflow body (clock, random source,
  environment, network, the services, the engine's retries) is in the state \<open>'w\<close>, which
  each step may read and change. The last three fields are what an inline read of the body
  would see in that state.
\<close>

record 'w worker =
  run_logWorkflowStep :: "string \<Rightarrow> log_data \<Rightarrow> 'w \<Rightarrow> unit outcome \<times> 'w"
  run_fetchTrafficData :: "DeliveryRoute \<Rightarrow> 'w \<Rightarrow> TrafficData outcome \<times> 'w"
  run_shouldSendNotification :: "int \<Rightarrow> int \<Rightarrow> 'w \<Rightarrow> bool outcome \<times> 'w"
  run_createAIMessageRequest :: "TrafficData \<Rightarrow> 'w \<Rightarrow> AIMessageRequest outcome \<times> 'w"
  run_generateAIMessage :: "AIMessageRequest \<Rightarrow> 'w \<Rightarrow> AIMessageResponse outcome \<times> 'w"
  run_createNotificationRequest :: "string \<Rightarrow> string \<Rightarrow> int \<Rightarrow> 'w \<Rightarrow> NotificationRequest outcome \<times> 'w"
  run_sendDelayNotification :: "NotificationRequest \<Rightarrow> 'w \<Rightarrow> NotificationResponse outcome \<times> 'w"
  run_sendSMSNotification :: "NotificationRequest \<Rightarrow> 'w \<Rightarrow> NotificationResponse outcome \<times> 'w"
  read_clock :: "'w \<Rightarrow> int \<times> 'w"
  read_random :: "'w \<Rightarrow> real \<times> 'w"
  read_environment :: "string \<Rightarrow> 'w \<Rightarrow> string option \<times> 'w"

type_synonym history = "(step_call \<times> step_result) list"

fun record_step :: "step_call \<times> step_result \<Rightarrow> 'r outcome \<times> history \<Rightarrow> 'r outcome \<times> history" where
  "record_step ev (res, h) = (res, ev # h)"

text \<open>
  A live execution: each scheduled step is run by the worker and recorded. An inline read
  takes its value from the outside state and leaves no record.
\<close>

primrec execute :: "'w worker \<Rightarrow> 'r workflow \<Rightarrow> 'w \<Rightarrow> 'r outcome \<times> history" where
  "execute wk (Done r) = (\<lambda>w. (Inr r, []))"
| "execute wk (Fault e) = (\<lambda>w. (Inl e, []))"
| "execute wk (LogWorkflowStep n d k) = (\<lambda>w.
     case run_logWorkflowStep wk n d w of (out, w') \<Rightarrow>
       record_step (LogWorkflowStepCall n d, LogWorkflowStepResult out) (execute wk (k out) w'))"
| "execute wk (FetchTrafficData r k) = (\<lambda>w.
     case run_fetchTrafficData wk r w of (out, w') \<Rightarrow>
       record_step (FetchTrafficDataCall r, FetchTrafficDataResult out) (execute wk (k out) w'))"
| "execute wk (ShouldSendNotification d t k) = (\<lambda>w.
     case run_shouldSendNotification wk d t w of (out, w') \<Rightarrow>
       record_step (ShouldSendNotificationCall d t, ShouldSendNotificationResult out) (execute wk (k out) w'))"
| "execute wk (CreateAIMessageRequest t k) = (\<lambda>w.
     case run_createAIMessageRequest wk t w of (out, w') \<Rightarrow>
       record_step (CreateAIMessageRequestCall t, CreateAIMessageRequestResult out) (execute wk (k out) w'))"
| "execute wk (GenerateAIMessage q k) = (\<lambda>w.
     case run_generateAIMessage wk q w of (out, w') \<Rightarrow>
       record_step (GenerateAIMessageCall q, GenerateAIMessageResult out) (execute wk (k out) w'))"
| "execute wk (CreateNotificationRequest c m d k) = (\<lambda>w.
     case run_createNotificationRequest wk c m d w of (out, w') \<Rightarrow>
       record_step (CreateNotificationRequestCall c m d, CreateNotificationRequestResult out) (execute wk (k out) w'))"
| "execute wk (SendDelayNotification q k) = (\<lambda>w.
     case run_sendDelayNotification wk q w of (out, w') \<Rightarrow>
       record_step (SendDelayNotificationCall q, SendDelayNotificationResult out) (execute wk (k out) w'))"
| "execute wk (SendSMSNotification q k) = (\<lambda>w.
     case run_sendSMSNotification wk q w of (out, w') \<Rightarrow>
       record_step (SendSMSNotificationCall q, SendSMSNotificationResult out) (execute wk (k out) w'))"
| "execute wk (ReadClock k) = (\<lambda>w.
     case read_clock wk w of (v, w') \<Rightarrow> execute wk (k v) w')"
| "execute wk (ReadRandom k) = (\<lambda>w.
     case read_random wk w of (v, w') \<Rightarrow> execute wk (k v) w')"
| "execute wk (ReadEnvironment name k) = (\<lambda>w.
     case read_environment wk name w of (v, w') \<Rightarrow> execute wk (k v) w')"

text \<open>
  Replay: the recorded step results are fed back in order and no step is run. A history
  that does not fit the workflow (wrong step, too short, too long) is rejected. A history
  holds no value for an inline read, so a body that makes one cannot be replayed from it.
\<close>

primrec replay :: "'r workflow \<Rightarrow> step_result list \<Rightarrow> ('r outcome \<times> step_call list) option" where
  "replay (Done r) = (\<lambda>h. if h = [] then Some (Inr r, []) else None)"
| "replay (Fault e) = (\<lambda>h. if h = [] then Some (Inl e, []) else None)"
| "replay (LogWorkflowStep n d k) = (\<lambda>h.
     case h of LogWorkflowStepResult out # h' \<Rightarrow>
       map_option (\<lambda>(r, cs). (r, LogWorkflowStepCall n d # cs)) (replay (k out) h')
     | _ \<Rightarrow> None)"
| "replay (FetchTrafficData r k) = (\<lambda>h.
     case h of FetchTrafficDataResult out # h' \<Rightarrow>
       map_option (\<lambda>(res, cs). (res, FetchTrafficDataCall r # cs)) (replay (k out) h')
     | _ \<Rightarrow> None)"
| "replay (ShouldSendNotification d t k) = (\<lambda>h.
     case h of ShouldSendNotificationResult out # h' \<Rightarrow>
       map_option (\<lambda>(res, cs). (res, ShouldSendNotificationCall d t # cs)) (replay (k out) h')
     | _ \<Rightarrow> None)"
| "replay (CreateAIMessageRequest t k) = (\<lambda>h.
     case h of CreateAIMessageRequestResult out # h' \<Rightarrow>
       map_option (\<lambda>(res, cs). (res, CreateAIMessageRequestCall t # cs)) (replay (k out) h')
     | _ \<Rightarrow> None)"
| "replay (GenerateAIMessage q k) = (\<lambda>h.
     case h of GenerateAIMessageResult out # h' \<Rightarrow>
       map_option (\<lambda>(res, cs). (res, GenerateAIMessageCall q # cs)) (replay (k out) h')
     | _ \<Rightarrow> None)"
| "replay (CreateNotificationRequest c m d k) = (\<lambda>h.
     case h of CreateNotificationRequestResult out # h' \<Rightarrow>
       map_option (\<lambda>(res, cs). (res, CreateNotificationRequestCall c m d # cs)) (replay (k out) h')
     | _ \<Rightarrow> None)"
| "replay (SendDelayNotification q k) = (\<lambda>h.
     case h of SendDelayNotificationResult out # h' \<Rightarrow>
       map_option (\<lambda>(res, cs). (res, SendDelayNotificationCall q # cs)) (replay (k out) h')
     | _ \<Rightarrow> None)"
| "replay (SendSMSNotification q k) = (\<lambda>h.
     case h of SendSMSNotificationResult out # h' \<Rightarrow>
       map_option (\<lambda>(res, cs). (res, SendSMSNotificationCall q # cs)) (replay (k out) h')
     | _ \<Rightarrow> None)"
| "replay (ReadClock k) = (\<lambda>h. None)"
| "replay (ReadRandom k) = (\<lambda>h. None)"
| "replay (ReadEnvironment name k) = (\<lambda>h. None)"

text \<open>The body makes no inline read on any of its paths.\<close>

primrec noInlineReads :: "'r workflow \<Rightarrow> bool" where
  "noInlineReads (Done r) = True"
| "noInlineReads (Fault e) = True"
| "noInlineReads (LogWorkflowStep n d k) = (\<forall>out. noInlineReads (k out))"
| "noInlineReads (FetchTrafficData r k) = (\<forall>out. noInlineReads (k out))"
| "noInlineReads (ShouldSendNotification m t k) = (\<forall>out. noInlineReads (k out))"
| "noInlineReads (CreateAIMessageRequest td k) = (\<forall>out. noInlineReads (k out))"
| "noInlineReads (GenerateAIMessage q k) = (\<forall>out. noInlineReads (k out))"
| "noInlineReads (CreateNotificationRequest c m d k) = (\<forall>out. noInlineReads (k out))"
| "noInlineReads (SendDelayNotification q k) = (\<forall>out. noInlineReads (k out))"
| "noInlineReads (SendSMSNotification q k) = (\<forall>out. noInlineReads (k out))"
| "noInlineReads (ReadClock k) = False"
| "noInlineReads (ReadRandom k) = False"
| "noInlineReads (ReadEnvironment name k) = False"


section \<open>The workflow (src/workflows/freightDelayWorkflow.ts)\<close>

definition freightDelayNotificationWorkflow :: "DelayNotificationInput \<Rightarrow> WorkflowResult workflow" where
  "freightDelayNotificationWorkflow input =
   LogWorkflowStep ''Workflow Started''
     (Some [(''route'', LRoute (DelayNotificationInput.route input)),
            (''customerEmail'', LText (DelayNotificationInput.customerEmail input)),
            (''threshold'', LNumber (delayThresholdMinutes input))]) (await (\<lambda>_.
   try_catch
    (LogWorkflowStep ''Step 1: Fetching Traffic Data'' None (await (\<lambda>_.
     FetchTrafficData (DelayNotificationInput.route input) (await (\<lambda>trafficData.
     LogWorkflowStep ''Step 1 Complete: Traffic Data Retrieved''
       (Some [(''delay'', LNumber (estimatedDelayMinutes trafficData)),
              (''condition'', LCondition (TrafficData.trafficCondition trafficData))]) (await (\<lambda>_.
     LogWorkflowStep ''Step 2: Checking Delay Threshold'' None (await (\<lambda>_.
     ShouldSendNotification (estimatedDelayMinutes trafficData) (delayThresholdMinutes input)
       (await (\<lambda>shouldNotify.
     if \<not> shouldNotify then
       LogWorkflowStep ''Step 2 Complete: No Notification Required''
         (Some [(''delay'', LNumber (estimatedDelayMinutes trafficData)),
                (''threshold'', LNumber (delayThresholdMinutes input))]) (await (\<lambda>_.
       Done \<lparr> delayDetected = False,
              WorkflowResult.delayMinutes = estimatedDelayMinutes trafficData,
              notificationSent = False,
              WorkflowResult.message = Some (''No notification required. Delay of '' @
                show_int (estimatedDelayMinutes trafficData) @ '' minutes is below threshold of '' @
                show_int (delayThresholdMinutes input) @ '' minutes.''),
              WorkflowResult.error = None \<rparr>))
     else
     LogWorkflowStep ''Step 3: Generating AI Message'' None (await (\<lambda>_.
     CreateAIMessageRequest trafficData (await (\<lambda>aiRequest.
     GenerateAIMessage aiRequest (await (\<lambda>aiResponse.
     (if \<not> AIMessageResponse.success aiResponse then
        LogWorkflowStep ''Step 3 Warning: AI Message Generation Failed''
          (Some [(''error'', LOptText (AIMessageResponse.error aiResponse)),
                 (''usingFallback'', LFlag True)])
      else
        LogWorkflowStep ''Step 3 Complete: AI Message Generated'' None) (await (\<lambda>_.
     LogWorkflowStep ''Step 4: Sending Notification'' None (await (\<lambda>_.
     CreateNotificationRequest (DelayNotificationInput.customerEmail input)
       (AIMessageResponse.message aiResponse) (estimatedDelayMinutes trafficData)
       (await (\<lambda>notificationRequest.
     SendDelayNotification notificationRequest (await (\<lambda>notificationResponse.
     if NotificationResponse.success notificationResponse then
       LogWorkflowStep ''Step 4 Complete: Notification Sent Successfully''
         (Some [(''messageId'', LOptText (messageId notificationResponse)),
                (''customer'', LText (DelayNotificationInput.customerEmail input))]) (await (\<lambda>_.
       Done \<lparr> delayDetected = True,
              WorkflowResult.delayMinutes = estimatedDelayMinutes trafficData,
              notificationSent = True,
              WorkflowResult.message = Some (''Delay notification sent successfully. Customer '' @
                DelayNotificationInput.customerEmail input @ '' has been notified of '' @
                show_int (estimatedDelayMinutes trafficData) @ '' minute delay.''),
              WorkflowResult.error = None \<rparr>))
     else
       LogWorkflowStep ''Step 4 Warning: Notification Failed''
         (Some [(''error'', LOptText (NotificationResponse.error notificationResponse)),
                (''tryingSMS'', LFlag True)]) (await (\<lambda>_.
       SendSMSNotification notificationRequest (await (\<lambda>smsResponse.
       if NotificationResponse.success smsResponse then
         LogWorkflowStep ''Step 4 Complete: SMS Notification Sent''
           (Some [(''messageId'', LOptText (messageId smsResponse))]) (await (\<lambda>_.
         Done \<lparr> delayDetected = True,
                WorkflowResult.delayMinutes = estimatedDelayMinutes trafficData,
                notificationSent = True,
                WorkflowResult.message = Some
                  (''Delay notification sent via SMS after email failed. Customer notified of '' @
                   show_int (estimatedDelayMinutes trafficData) @ '' minute delay.''),
                WorkflowResult.error = None \<rparr>))
       else
         LogWorkflowStep ''Step 4 Failed: Both Email and SMS Failed''
           (Some [(''emailError'', LOptText (NotificationResponse.error notificationResponse)),
                  (''smsError'', LOptText (NotificationResponse.error smsResponse))]) (await (\<lambda>_.
         Done \<lparr> delayDetected = True,
                WorkflowResult.delayMinutes = estimatedDelayMinutes trafficData,
                notificationSent = False,
                WorkflowResult.message = None,
                WorkflowResult.error = Some (''Failed to send notification: Email failed ('' @
                  show_opt (NotificationResponse.error notificationResponse) @ ''), SMS failed ('' @
                  show_opt (NotificationResponse.error smsResponse) @ '')'') \<rparr>))))))
     )))))))))))))))))))))))))
    (\<lambda>err.
     LogWorkflowStep ''Workflow Error''
       (Some [(''error'', LText (case err of Error m \<Rightarrow> m | NonError \<Rightarrow> ''Unknown error''))])
       (await (\<lambda>_.
     Done \<lparr> delayDetected = False,
            WorkflowResult.delayMinutes = 0,
            notificationSent = False,
            WorkflowResult.message = None,
            WorkflowResult.error =
              Some (case err of Error m \<Rightarrow> m | NonError \<Rightarrow> ''Unknown workflow error'') \<rparr>)))))"

section \<open>Properties of all paths of a workflow\<close>

text \<open>
  \<open>allPaths p P\<close>: whatever outcome each scheduled step has and whatever value each
  inline read yields, the history \<open>h\<close> and the result \<open>res\<close> at the end of the path
  satisfy \<open>P h res\<close>.
\<close>

primrec allPaths :: "'r workflow \<Rightarrow> (history \<Rightarrow> 'r outcome \<Rightarrow> bool) \<Rightarrow> bool" where
  "allPaths (Done r) = (\<lambda>P. P [] (Inr r))"
| "allPaths (Fault e) = (\<lambda>P. P [] (Inl e))"
| "allPaths (LogWorkflowStep n d k) = (\<lambda>P. \<forall>out.
     allPaths (k out) (\<lambda>h. P ((LogWorkflowStepCall n d, LogWorkflowStepResult out) # h)))"
| "allPaths (FetchTrafficData r k) = (\<lambda>P. \<forall>out.
     allPaths (k out) (\<lambda>h. P ((FetchTrafficDataCall r, FetchTrafficDataResult out) # h)))"
| "allPaths (ShouldSendNotification m t k) = (\<lambda>P. \<forall>out.
     allPaths (k out) (\<lambda>h. P ((ShouldSendNotificationCall m t, ShouldSendNotificationResult out) # h)))"
| "allPaths (CreateAIMessageRequest td k) = (\<lambda>P. \<forall>out.
     allPaths (k out) (\<lambda>h. P ((CreateAIMessageRequestCall td, CreateAIMessageRequestResult out) # h)))"
| "allPaths (GenerateAIMessage q k) = (\<lambda>P. \<forall>out.
     allPaths (k out) (\<lambda>h. P ((GenerateAIMessageCall q, GenerateAIMessageResult out) # h)))"
| "allPaths (CreateNotificationRequest c m d k) = (\<lambda>P. \<forall>out.
     allPaths (k out) (\<lambda>h. P ((CreateNotificationRequestCall c m d, CreateNotificationRequestResult out) # h)))"
| "allPaths (SendDelayNotification q k) = (\<lambda>P. \<forall>out.
     allPaths (k out) (\<lambda>h. P ((SendDelayNotificationCall q, SendDelayNotificationResult out) # h)))"
| "allPaths (SendSMSNotification q k) = (\<lambda>P. \<forall>out.
     allPaths (k out) (\<lambda>h. P ((SendSMSNotificationCall q, SendSMSNotificationResult out) # h)))"
| "allPaths (ReadClock k) = (\<lambda>P. \<forall>v. allPaths (k v) P)"
| "allPaths (ReadRandom k) = (\<lambda>P. \<forall>v. allPaths (k v) P)"
| "allPaths (ReadEnvironment name k) = (\<lambda>P. \<forall>v. allPaths (k v) P)"

text \<open>Every logging step of the history completed.\<close>

fun logCompleted :: "step_call \<times> step_result \<Rightarrow> bool" where
  "logCompleted (c, LogWorkflowStepResult out) = (out = Inr ())"
| "logCompleted (c, r) = True"

definition loggingCompleted :: "history \<Rightarrow> bool" where
  "loggingCompleted h = list_all logCompleted h"



text \<open>Every primary send of the history that returned a response reported success.\<close>

fun primarySendSucceeded :: "step_call \<times> step_result \<Rightarrow> bool" where
  "primarySendSucceeded (SendDelayNotificationCall q, SendDelayNotificationResult (Inr response)) =
     NotificationResponse.success response"
| "primarySendSucceeded (c, r) = True"

fun isSMSCall :: "step_call \<Rightarrow> bool" where
  "isSMSCall (SendSMSNotificationCall q) = True"
| "isSMSCall c = False"

text \<open>The failure a step ended with, if it did.\<close>

fun failureOf :: "step_result \<Rightarrow> thrown option" where
  "failureOf (LogWorkflowStepResult out) = (case out of Inl e \<Rightarrow> Some e | Inr v \<Rightarrow> None)"
| "failureOf (FetchTrafficDataResult out) = (case out of Inl e \<Rightarrow> Some e | Inr v \<Rightarrow> None)"
| "failureOf (ShouldSendNotificationResult out) = (case out of Inl e \<Rightarrow> Some e | Inr v \<Rightarrow> None)"
| "failureOf (CreateAIMessageRequestResult out) = (case out of Inl e \<Rightarrow> Some e | Inr v \<Rightarrow> None)"
| "failureOf (GenerateAIMessageResult out) = (case out of Inl e \<Rightarrow> Some e | Inr v \<Rightarrow> None)"
| "failureOf (CreateNotificationRequestResult out) = (case out of Inl e \<Rightarrow> Some e | Inr v \<Rightarrow> None)"
| "failureOf (SendDelayNotificationResult out) = (case out of Inl e \<Rightarrow> Some e | Inr v \<Rightarrow> None)"
| "failureOf (SendSMSNotificationResult out) = (case out of Inl e \<Rightarrow> Some e | Inr v \<Rightarrow> None)"

section \<open>Retry policy\<close>

text \<open>
  Modelled from the spec: the retry policy engine (section 4.2). The repository only
  configures it, through the \<open>retry\<close> options given to \<open>proxyActivities\<close>; the code that
  computes the delays and counts the attempts belongs to the workflow engine and is not
  under src/. Intervals are in seconds.
\<close>

record RetryPolicy =
  initialInterval :: real
  maximumInterval :: real
  backoffCoefficient :: real
  maximumAttempts :: nat

text \<open>
  Modelled from the spec: the delay computed after attempt \<open>n\<close> (counted from 1) has
  failed, \<open>min(initialInterval * backoffCoefficient^(n-1), maximumInterval)\<close>.
\<close>

definition retryDelay :: "RetryPolicy \<Rightarrow> nat \<Rightarrow> real" where
  "retryDelay p n = min (initialInterval p * backoffCoefficient p ^ (n - 1)) (maximumInterval p)"

datatype retry_decision = RetryAfter real | TerminalFailure

text \<open>
  Modelled from the spec: a failure is retryable unless the step classifies it as terminal
  or \<open>n == maximumAttempts\<close>.
\<close>

definition onAttemptFailure :: "RetryPolicy \<Rightarrow> bool \<Rightarrow> nat \<Rightarrow> retry_decision" where
  "onAttemptFailure p classifiedTerminal n =
     (if classifiedTerminal \<or> n = maximumAttempts p then TerminalFailure
      else RetryAfter (retryDelay p n))"


text \<open>
  The retry options of src/workflows/freightDelayWorkflow.ts: \<open>initialInterval: '1 second'\<close>,
  \<open>maximumInterval: '10 seconds'\<close>, \<open>maximumAttempts: 3\<close>, \<open>backoffCoefficient: 2\<close>.
\<close>

definition activityRetryPolicy :: RetryPolicy where
  "activityRetryPolicy =
     \<lparr> initialInterval = 1, maximumInterval = 10, backoffCoefficient = 2, maximumAttempts = 3 \<rparr>"

section \<open>Workers and inputs used in the examples\<close>

text \<open>
  A worker that answers from a script: the traffic, composition and send steps return the
  given outcomes, the remaining steps run the activities of src/activities/index.ts.
\<close>

definition scriptedWorker ::
  "TrafficData outcome \<Rightarrow> AIMessageResponse outcome \<Rightarrow> NotificationResponse outcome \<Rightarrow>
   NotificationResponse outcome \<Rightarrow> unit worker" where
  "scriptedWorker traffic ai email sms =
     \<lparr> run_logWorkflowStep = (\<lambda>n d w. (Inr (), w)),
       run_fetchTrafficData = (\<lambda>r w. (traffic, w)),
       run_shouldSendNotification = (\<lambda>d t w. (Inr (shouldSendNotification d t), w)),
       run_createAIMessageRequest = (\<lambda>t w. (Inr (createAIMessageRequest t), w)),
       run_generateAIMessage = (\<lambda>q w. (ai, w)),
       run_createNotificationRequest = (\<lambda>c m d w. (Inr (createNotificationRequest c m d), w)),
       run_sendDelayNotification = (\<lambda>q w. (email, w)),
       run_sendSMSNotification = (\<lambda>q w. (sms, w)),
       read_clock = (\<lambda>w. (0, w)),
       read_random = (\<lambda>w. (0, w)),
       read_environment = (\<lambda>name w. (None, w)) \<rparr>"

text \<open>
  A worker that runs the activities against the services. Its state holds what the
  services read from their host: the clock, the next random draw and the random text of a
  message id. The composition service (services/aiService.ts) is not modelled, so the
  outcome of its step is a parameter.
\<close>

record host =
  host_clock :: int
  host_draw :: real
  host_token :: string

definition serviceWorker :: "AIMessageResponse outcome \<Rightarrow> host worker" where
  "serviceWorker ai =
     \<lparr> run_logWorkflowStep = (\<lambda>n d w. (Inr (), w)),
       run_fetchTrafficData = (\<lambda>r w. (fetchTrafficData (host_draw w) (host_draw w) r, w)),
       run_shouldSendNotification = (\<lambda>d t w. (Inr (shouldSendNotification d t), w)),
       run_createAIMessageRequest = (\<lambda>t w. (Inr (createAIMessageRequest t), w)),
       run_generateAIMessage = (\<lambda>q w. (ai, w)),
       run_createNotificationRequest = (\<lambda>c m d w. (Inr (createNotificationRequest c m d), w)),
       run_sendDelayNotification = (\<lambda>q w.
         (sendDelayNotification (host_clock w) (host_token w) q,
          w\<lparr>host_clock := host_clock w + 1\<rparr>)),
       run_sendSMSNotification = (\<lambda>q w.
         (sendSMSNotification (host_clock w) (host_token w) q,
          w\<lparr>host_clock := host_clock w + 1\<rparr>)),
       read_clock = (\<lambda>w. (host_clock w, w)),
       read_random = (\<lambda>w. (host_draw w, w)),
       read_environment = (\<lambda>name w. (None, w)) \<rparr>"

text \<open>
  A worker on which the logging step named \<open>failing\<close> fails with \<open>e\<close>; every other step
  answers as the scripted worker does.
\<close>

definition brokenLogWorker ::
  "string \<Rightarrow> thrown \<Rightarrow> TrafficData outcome \<Rightarrow> AIMessageResponse outcome \<Rightarrow>
   NotificationResponse outcome \<Rightarrow> NotificationResponse outcome \<Rightarrow> unit worker" where
  "brokenLogWorker failing e traffic ai email sms =
     (scriptedWorker traffic ai email sms)
       \<lparr> run_logWorkflowStep := (\<lambda>n d w. (if n = failing then Inl e else Inr (), w)) \<rparr>"

text \<open>
  A body that is not the repository's: it reads the clock inline and returns whether the
  value is even. It schedules no step.
\<close>

definition clockReadingBody :: "bool workflow" where
  "clockReadingBody = ReadClock (\<lambda>now. Done (even now))"

definition exampleRoute :: DeliveryRoute where
  "exampleRoute =
     \<lparr> origin = ''New York, NY'', destination = ''Philadelphia, PA'', waypoints = None \<rparr>"

definition exampleInput :: "int \<Rightarrow> DelayNotificationInput" where
  "exampleInput threshold =
     \<lparr> DelayNotificationInput.route = exampleRoute,
       DelayNotificationInput.customerEmail = ''customer@example.com'',
       delayThresholdMinutes = threshold \<rparr>"

definition exampleHost :: host where
  "exampleHost = \<lparr> host_clock = 1000, host_draw = 3 / 4, host_token = ''k3x9'' \<rparr>"

definition exampleSnapshot :: TrafficData where
  "exampleSnapshot = getMockTrafficData (3 / 4) exampleRoute"

definition exampleAIResponse :: AIMessageResponse where
  "exampleAIResponse =
     \<lparr> AIMessageResponse.message = ''Your delivery is delayed by 45 minutes.'',
       AIMessageResponse.success = True, AIMessageResponse.error = None \<rparr>"

definition exampleRequest :: NotificationRequest where
  "exampleRequest =
     createNotificationRequest ''customer@example.com''
       ''Your delivery is delayed by 45 minutes.'' 45"

definition sent :: "string \<Rightarrow> NotificationResponse" where
  "sent msgId = \<lparr> NotificationResponse.success = True, messageId = Some msgId,
                  NotificationResponse.error = None \<rparr>"

definition rejected :: "string \<Rightarrow> NotificationResponse" where
  "rejected reason = \<lparr> NotificationResponse.success = False, messageId = None,
                       NotificationResponse.error = Some reason \<rparr>"

section \<open>Properties\<close>

subsection \<open>Histories and replay\<close>

lemma fst_record_step: "fst (record_step ev x) = fst x"
  by (cases x) simp

lemma snd_record_step: "snd (record_step ev x) = ev # snd x"
  by (cases x) simp

text \<open>
  For a body without inline reads, replaying the step results recorded by a live execution
  gives that execution's result and schedules the same steps.
\<close>

lemma replay_execute:
  "noInlineReads p \<Longrightarrow>
   replay p (map snd (snd (execute wk p w))) =
     Some (fst (execute wk p w), map fst (snd (execute wk p w)))"
  by (induction p arbitrary: w) (auto simp: fst_record_step snd_record_step split: prod.splits)

text \<open>
  A property of all paths of a workflow tree holds of the history and the result of every
  execution of it, by any worker from any outside state.
\<close>

lemma execute_allPaths:
  "allPaths p P \<Longrightarrow> P (snd (execute wk p w)) (fst (execute wk p w))"
proof (induction p arbitrary: P w)
  case (LogWorkflowStep n d k)
  obtain out w' where r: "run_logWorkflowStep wk n d w = (out, w')"
    by (cases "run_logWorkflowStep wk n d w")
  have "allPaths (k out) (\<lambda>h. P ((LogWorkflowStepCall n d, LogWorkflowStepResult out) # h))"
    using LogWorkflowStep.prems by simp
  from LogWorkflowStep.IH [of "k out" "\<lambda>h. P ((LogWorkflowStepCall n d, LogWorkflowStepResult out) # h)" w', OF rangeI this]
  show ?case
    by (simp add: r fst_record_step snd_record_step)
next
  case (FetchTrafficData r k)
  obtain out w' where r: "run_fetchTrafficData wk r w = (out, w')"
    by (cases "run_fetchTrafficData wk r w")
  have "allPaths (k out) (\<lambda>h. P ((FetchTrafficDataCall r, FetchTrafficDataResult out) # h))"
    using FetchTrafficData.prems by simp
  from FetchTrafficData.IH [of "k out" "\<lambda>h. P ((FetchTrafficDataCall r, FetchTrafficDataResult out) # h)" w', OF rangeI this]
  show ?case
    by (simp add: r fst_record_step snd_record_step)
next
  case (ShouldSendNotification m t k)
  obtain out w' where r: "run_shouldSendNotification wk m t w = (out, w')"
    by (cases "run_shouldSendNotification wk m t w")
  have "allPaths (k out) (\<lambda>h. P ((ShouldSendNotificationCall m t, ShouldSendNotificationResult out) # h))"
    using ShouldSendNotification.prems by simp
  from ShouldSendNotification.IH [of "k out" "\<lambda>h. P ((ShouldSendNotificationCall m t, ShouldSendNotificationResult out) # h)" w', OF rangeI this]
  show ?case
    by (simp add: r fst_record_step snd_record_step)
next
  case (CreateAIMessageRequest td k)
  obtain out w' where r: "run_createAIMessageRequest wk td w = (out, w')"
    by (cases "run_createAIMessageRequest wk td w")
  have "allPaths (k out) (\<lambda>h. P ((CreateAIMessageRequestCall td, CreateAIMessageRequestResult out) # h))"
    using CreateAIMessageRequest.prems by simp
  from CreateAIMessageRequest.IH [of "k out" "\<lambda>h. P ((CreateAIMessageRequestCall td, CreateAIMessageRequestResult out) # h)" w', OF rangeI this]
  show ?case
    by (simp add: r fst_record_step snd_record_step)
next
  case (GenerateAIMessage q k)
  obtain out w' where r: "run_generateAIMessage wk q w = (out, w')"
    by (cases "run_generateAIMessage wk q w")
  have "allPaths (k out) (\<lambda>h. P ((GenerateAIMessageCall q, GenerateAIMessageResult out) # h))"
    using GenerateAIMessage.prems by simp
  from GenerateAIMessage.IH [of "k out" "\<lambda>h. P ((GenerateAIMessageCall q, GenerateAIMessageResult out) # h)" w', OF rangeI this]
  show ?case
    by (simp add: r fst_record_step snd_record_step)
next
  case (CreateNotificationRequest c m d k)
  obtain out w' where r: "run_createNotificationRequest wk c m d w = (out, w')"
    by (cases "run_createNotificationRequest wk c m d w")
  have "allPaths (k out) (\<lambda>h. P ((CreateNotificationRequestCall c m d, CreateNotificationRequestResult out) # h))"
    using CreateNotificationRequest.prems by simp
  from CreateNotificationRequest.IH [of "k out" "\<lambda>h. P ((CreateNotificationRequestCall c m d, CreateNotificationRequestResult out) # h)" w', OF rangeI this]
  show ?case
    by (simp add: r fst_record_step snd_record_step)
next
  case (SendDelayNotification q k)
  obtain out w' where r: "run_sendDelayNotification wk q w = (out, w')"
    by (cases "run_sendDelayNotification wk q w")
  have "allPaths (k out) (\<lambda>h. P ((SendDelayNotificationCall q, SendDelayNotificationResult out) # h))"
    using SendDelayNotification.prems by simp
  from SendDelayNotification.IH [of "k out" "\<lambda>h. P ((SendDelayNotificationCall q, SendDelayNotificationResult out) # h)" w', OF rangeI this]
  show ?case
    by (simp add: r fst_record_step snd_record_step)
next
  case (SendSMSNotification q k)
  obtain out w' where r: "run_sendSMSNotification wk q w = (out, w')"
    by (cases "run_sendSMSNotification wk q w")
  have "allPaths (k out) (\<lambda>h. P ((SendSMSNotificationCall q, SendSMSNotificationResult out) # h))"
    using SendSMSNotification.prems by simp
  from SendSMSNotification.IH [of "k out" "\<lambda>h. P ((SendSMSNotificationCall q, SendSMSNotificationResult out) # h)" w', OF rangeI this]
  show ?case
    by (simp add: r fst_record_step snd_record_step)
next
  case (ReadClock k)
  obtain v w' where r: "read_clock wk w = (v, w')"
    by (cases "read_clock wk w")
  have "allPaths (k v) P"
    using ReadClock.prems by simp
  from ReadClock.IH [of "k v" P w', OF rangeI this]
  show ?case
    by (simp add: r)
next
  case (ReadRandom k)
  obtain v w' where r: "read_random wk w = (v, w')"
    by (cases "read_random wk w")
  have "allPaths (k v) P"
    using ReadRandom.prems by simp
  from ReadRandom.IH [of "k v" P w', OF rangeI this]
  show ?case
    by (simp add: r)
next
  case (ReadEnvironment name k)
  obtain v w' where r: "read_environment wk name w = (v, w')"
    by (cases "read_environment wk name w")
  have "allPaths (k v) P"
    using ReadEnvironment.prems by simp
  from ReadEnvironment.IH [of "k v" P w', OF rangeI this]
  show ?case
    by (simp add: r)
qed simp_all

lemma execution_satisfies:
  assumes "allPaths p P" and "execute wk p w = (res, hist)"
  shows "P hist res"
  using execute_allPaths [OF assms(1), of wk w] assms(2) by simp

lemma workflow_noInlineReads: "noInlineReads (freightDelayNotificationWorkflow input)"
  unfolding freightDelayNotificationWorkflow_def
  by (simp add: await_def split_sum_all)

text \<open>
  C2. The body of the workflow makes no inline read of the clock, of the random source or
  of the environment: all it does is schedule steps and continue from their results. Two
  executions of it on the same input, by any two workers in any two outside states
  (whatever the clock, the random source and the environment hold there), that record the
  same sequence of step results return the same terminal result and schedule the same steps
  with the same arguments.
\<close>

theorem replay_deterministic:
  assumes "map snd (snd (execute wk1 (freightDelayNotificationWorkflow input) w1)) =
           map snd (snd (execute wk2 (freightDelayNotificationWorkflow input) w2))"
  shows "noInlineReads (freightDelayNotificationWorkflow input) \<and>
         fst (execute wk1 (freightDelayNotificationWorkflow input) w1) =
         fst (execute wk2 (freightDelayNotificationWorkflow input) w2) \<and>
         map fst (snd (execute wk1 (freightDelayNotificationWorkflow input) w1)) =
         map fst (snd (execute wk2 (freightDelayNotificationWorkflow input) w2))"
proof -
  let ?p = "freightDelayNotificationWorkflow input"
  have n: "noInlineReads ?p"
    by (rule workflow_noInlineReads)
  have "replay ?p (map snd (snd (execute wk1 ?p w1))) =
        Some (fst (execute wk1 ?p w1), map fst (snd (execute wk1 ?p w1)))"
    by (rule replay_execute [OF n])
  moreover have "replay ?p (map snd (snd (execute wk2 ?p w2))) =
        Some (fst (execute wk2 ?p w2), map fst (snd (execute wk2 ?p w2)))"
    by (rule replay_execute [OF n])
  ultimately show ?thesis using assms n by simp
qed

text \<open>
  The statement is about this body and fails for a body that reads inline: two executions
  of \<open>clockReadingBody\<close> record the same (empty) sequence of step results and return
  different results when the clock differs.
\<close>

lemma inline_read_breaks_replay:
  "map snd (snd (execute (serviceWorker (Inr exampleAIResponse)) clockReadingBody exampleHost)) =
   map snd (snd (execute (serviceWorker (Inr exampleAIResponse)) clockReadingBody
                   (exampleHost \<lparr> host_clock := 1001 \<rparr>))) \<and>
   fst (execute (serviceWorker (Inr exampleAIResponse)) clockReadingBody exampleHost) = Inr True \<and>
   fst (execute (serviceWorker (Inr exampleAIResponse)) clockReadingBody
          (exampleHost \<lparr> host_clock := 1001 \<rparr>)) = Inr False"
  by (simp add: clockReadingBody_def serviceWorker_def exampleHost_def)

text \<open>Evaluation of the examples.\<close>

lemmas route_defs =
  validateRoute_def exampleRoute_def trim_def whitespaceCodes_def stripLeading.simps
  fetchTrafficData_def getTrafficData_def getRealTrafficData_def

lemma exampleRoute_valid: "validateRoute exampleRoute"
  by (simp add: route_defs)

lemma fetch_example [simp]:
  "fetchTrafficData (3 / 4) rnd' exampleRoute = Inr exampleSnapshot"
  by (simp add: fetchTrafficData_def exampleRoute_valid getTrafficData_def
      getRealTrafficData_def exampleSnapshot_def)

lemmas example_defs =
  freightDelayNotificationWorkflow_def await_def scriptedWorker_def serviceWorker_def
  brokenLogWorker_def exampleRequest_def
  exampleInput_def exampleSnapshot_def exampleHost_def exampleAIResponse_def sent_def rejected_def
  getMockTrafficData_def shouldSendNotification_def classifyDelay_def
  sendDelayNotification_def sendSMSNotification_def notificationService_sendDelayNotification_def
  notificationService_sendSMSNotification_def simulateEmailSending_def simulateSMSSending_def
  notificationService_validateRequest_def createNotificationRequest_def createDelaySubject_def
  createAIMessageRequest_def createSMSMessage_def
  show_int_def digits.simps digit_char_def

text \<open>
  The service worker, with its clock and random draw, and a scripted worker without any
  state record the same step results on the example input, and return the same result.
\<close>

theorem replay_deterministic_witness:
  "map snd (snd (execute (serviceWorker (Inr exampleAIResponse))
       (freightDelayNotificationWorkflow (exampleInput 30)) exampleHost)) =
   map snd (snd (execute (scriptedWorker (Inr exampleSnapshot) (Inr exampleAIResponse)
          (Inr (sent ''msg_1000_k3x9'')) (Inr (sent ''unused'')))
       (freightDelayNotificationWorkflow (exampleInput 30)) ())) \<and>
   fst (execute (serviceWorker (Inr exampleAIResponse))
       (freightDelayNotificationWorkflow (exampleInput 30)) exampleHost) =
   fst (execute (scriptedWorker (Inr exampleSnapshot) (Inr exampleAIResponse)
          (Inr (sent ''msg_1000_k3x9'')) (Inr (sent ''unused'')))
       (freightDelayNotificationWorkflow (exampleInput 30)) ())"
  using replay_deterministic [of "serviceWorker (Inr exampleAIResponse)" "exampleInput 30"
      exampleHost
      "scriptedWorker (Inr exampleSnapshot) (Inr exampleAIResponse)
          (Inr (sent ''msg_1000_k3x9'')) (Inr (sent ''unused''))" "()", THEN conjunct2]
  by (simp add: example_defs)

subsection \<open>The threshold decides the branch\<close>





subsection \<open>The fallback channel\<close>

lemma sublist_middle: "sublist x (a @ x @ b)"
  unfolding sublist_def by blast

lemma failure_reasons_mentioned:
  "sublist a (''Failed to send notification: Email failed ('' @ a @ ''), SMS failed ('' @ b @ '')'')"
  "sublist b (''Failed to send notification: Email failed ('' @ a @ ''), SMS failed ('' @ b @ '')'')"
proof -
  show "sublist a (''Failed to send notification: Email failed ('' @ a @ ''), SMS failed ('' @ b @ '')'')"
    by (rule sublist_middle)
  have "''Failed to send notification: Email failed ('' @ a @ ''), SMS failed ('' @ b @ '')'' =
        (''Failed to send notification: Email failed ('' @ a @ ''), SMS failed ('') @ b @ '')''"
    by simp
  then show "sublist b (''Failed to send notification: Email failed ('' @ a @ ''), SMS failed ('' @ b @ '')'')"
    by (simp only: sublist_middle)
qed

lemma fallback_paths:
  "allPaths (freightDelayNotificationWorkflow input) (\<lambda>h res.
     loggingCompleted h \<longrightarrow>
     (SendDelayNotificationCall request, SendDelayNotificationResult (Inr response)) \<in> set h \<longrightarrow>
     \<not> NotificationResponse.success response \<longrightarrow>
     (\<exists>smsOutcome.
        (SendSMSNotificationCall request, SendSMSNotificationResult smsOutcome) \<in> set h \<and>
        (\<forall>q out. (SendSMSNotificationCall q, out) \<in> set h \<longrightarrow> q = request) \<and>
        (\<forall>smsResponse.
           smsOutcome = Inr smsResponse \<and> NotificationResponse.success smsResponse \<longrightarrow>
           (\<exists>r rest. res = Inr r \<and> delayDetected r \<and> notificationSent r \<and>
              WorkflowResult.message r =
                Some (''Delay notification sent via SMS after email failed.'' @ rest)))))"
  unfolding freightDelayNotificationWorkflow_def
  by (simp add: await_def loggingCompleted_def split_sum_all)

text \<open>
  C3. In every execution whose logging steps complete: when the primary send step returns a
  response with \<open>success: false\<close>, the SMS send step is scheduled with the very request
  that was given to the primary send (the same \<open>NotificationRequest\<close>, hence the same
  message text), and with no other request; when that step returns \<open>success: true\<close> the
  result has \<open>delayDetected: true\<close>, \<open>notificationSent: true\<close> and a message that begins
  by saying the notification was sent via SMS after email failed.
\<close>

theorem fallback_after_primary_failure:
  assumes run: "execute wk (freightDelayNotificationWorkflow input) w = (res, hist)"
    and logs: "loggingCompleted hist"
    and primary: "(SendDelayNotificationCall request,
                   SendDelayNotificationResult (Inr response)) \<in> set hist"
    and failed: "\<not> NotificationResponse.success response"
  shows "\<exists>smsOutcome.
           (SendSMSNotificationCall request, SendSMSNotificationResult smsOutcome) \<in> set hist \<and>
           (\<forall>q out. (SendSMSNotificationCall q, out) \<in> set hist \<longrightarrow> q = request) \<and>
           (\<forall>smsResponse.
              smsOutcome = Inr smsResponse \<and> NotificationResponse.success smsResponse \<longrightarrow>
              (\<exists>r rest. res = Inr r \<and> delayDetected r \<and> notificationSent r \<and>
                 WorkflowResult.message r =
                   Some (''Delay notification sent via SMS after email failed.'' @ rest)))"
  using execution_satisfies [OF fallback_paths run, of request response] logs primary failed
  by (elim impE) assumption+

text \<open>The primary channel rejects the message and the SMS channel accepts it.\<close>

theorem fallback_after_primary_failure_witness:
  "(case execute (scriptedWorker (Inr exampleSnapshot) (Inr exampleAIResponse)
            (Inr (rejected ''mailbox full'')) (Inr (sent ''sms_1'')))
          (freightDelayNotificationWorkflow (exampleInput 30)) () of
      (res, hist) \<Rightarrow>
        loggingCompleted hist \<and>
        (SendDelayNotificationCall exampleRequest,
           SendDelayNotificationResult (Inr (rejected ''mailbox full''))) \<in> set hist \<and>
        \<not> NotificationResponse.success (rejected ''mailbox full'') \<and>
        (SendSMSNotificationCall exampleRequest,
           SendSMSNotificationResult (Inr (sent ''sms_1''))) \<in> set hist \<and>
        res = Inr \<lparr> delayDetected = True, WorkflowResult.delayMinutes = 45,
                notificationSent = True,
                WorkflowResult.message = Some
                  ''Delay notification sent via SMS after email failed. Customer notified of 45 minute delay.'',
                WorkflowResult.error = None \<rparr>)"
  using fallback_after_primary_failure [of
      "scriptedWorker (Inr exampleSnapshot) (Inr exampleAIResponse)
            (Inr (rejected ''mailbox full'')) (Inr (sent ''sms_1''))"
      "exampleInput 30" "()"
      "fst (execute (scriptedWorker (Inr exampleSnapshot) (Inr exampleAIResponse)
            (Inr (rejected ''mailbox full'')) (Inr (sent ''sms_1'')))
          (freightDelayNotificationWorkflow (exampleInput 30)) ())"
      "snd (execute (scriptedWorker (Inr exampleSnapshot) (Inr exampleAIResponse)
            (Inr (rejected ''mailbox full'')) (Inr (sent ''sms_1'')))
          (freightDelayNotificationWorkflow (exampleInput 30)) ())"
      exampleRequest "rejected ''mailbox full''"]
  by (simp add: example_defs loggingCompleted_def)

lemma double_failure_paths:
  "allPaths (freightDelayNotificationWorkflow input) (\<lambda>h res.
     loggingCompleted h \<longrightarrow>
     (SendDelayNotificationCall request, SendDelayNotificationResult (Inr response)) \<in> set h \<longrightarrow>
     \<not> NotificationResponse.success response \<longrightarrow>
     (SendSMSNotificationCall request', SendSMSNotificationResult (Inr smsResponse)) \<in> set h \<longrightarrow>
     \<not> NotificationResponse.success smsResponse \<longrightarrow>
     (\<exists>r. res = Inr r \<and> delayDetected r \<and> \<not> notificationSent r \<and>
        WorkflowResult.error r = Some (''Failed to send notification: Email failed ('' @
          show_opt (NotificationResponse.error response) @ ''), SMS failed ('' @
          show_opt (NotificationResponse.error smsResponse) @ '')'')))"
  unfolding freightDelayNotificationWorkflow_def
  by (simp add: await_def loggingCompleted_def split_sum_all)

text \<open>
  C4. In every execution whose logging steps complete: when the primary send step and the
  SMS send step both return a response with \<open>success: false\<close>, the workflow returns a
  result with \<open>delayDetected: true\<close>, \<open>notificationSent: false\<close> and an error text that
  contains the failure reason of each channel (an absent reason is rendered as
  \<open>undefined\<close>).
\<close>

theorem both_channels_fail:
  assumes run: "execute wk (freightDelayNotificationWorkflow input) w = (res, hist)"
    and logs: "loggingCompleted hist"
    and primary: "(SendDelayNotificationCall request,
                   SendDelayNotificationResult (Inr response)) \<in> set hist"
    and failed: "\<not> NotificationResponse.success response"
    and fallback: "(SendSMSNotificationCall request',
                    SendSMSNotificationResult (Inr smsResponse)) \<in> set hist"
    and failed': "\<not> NotificationResponse.success smsResponse"
  shows "\<exists>r e. res = Inr r \<and> delayDetected r \<and> \<not> notificationSent r \<and>
           WorkflowResult.error r = Some e \<and>
           sublist (show_opt (NotificationResponse.error response)) e \<and>
           sublist (show_opt (NotificationResponse.error smsResponse)) e"
proof -
  have "\<exists>r. res = Inr r \<and> delayDetected r \<and> \<not> notificationSent r \<and>
        WorkflowResult.error r = Some (''Failed to send notification: Email failed ('' @
          show_opt (NotificationResponse.error response) @ ''), SMS failed ('' @
          show_opt (NotificationResponse.error smsResponse) @ '')'')"
    using execution_satisfies [OF double_failure_paths run, of request response request' smsResponse]
      logs primary failed fallback failed'
    by (elim impE) assumption+
  then obtain r where r: "res = Inr r" "delayDetected r" "\<not> notificationSent r"
    "WorkflowResult.error r = Some (''Failed to send notification: Email failed ('' @
          show_opt (NotificationResponse.error response) @ ''), SMS failed ('' @
          show_opt (NotificationResponse.error smsResponse) @ '')'')"
    by (elim exE conjE)
  from r failure_reasons_mentioned show ?thesis
    by (intro exI conjI)
qed

text \<open>Both channels reject the message.\<close>

theorem both_channels_fail_witness:
  "(case execute (scriptedWorker (Inr exampleSnapshot) (Inr exampleAIResponse)
            (Inr (rejected ''mailbox full'')) (Inr (rejected ''no credit'')))
          (freightDelayNotificationWorkflow (exampleInput 30)) () of
      (res, hist) \<Rightarrow>
        loggingCompleted hist \<and>
        (SendDelayNotificationCall exampleRequest,
           SendDelayNotificationResult (Inr (rejected ''mailbox full''))) \<in> set hist \<and>
        \<not> NotificationResponse.success (rejected ''mailbox full'') \<and>
        (SendSMSNotificationCall exampleRequest,
           SendSMSNotificationResult (Inr (rejected ''no credit''))) \<in> set hist \<and>
        \<not> NotificationResponse.success (rejected ''no credit'') \<and>
        res = Inr \<lparr> delayDetected = True, WorkflowResult.delayMinutes = 45,
                notificationSent = False,
                WorkflowResult.message = None,
                WorkflowResult.error = Some
                  ''Failed to send notification: Email failed (mailbox full), SMS failed (no credit)'' \<rparr>)"
  using both_channels_fail [of
      "scriptedWorker (Inr exampleSnapshot) (Inr exampleAIResponse)
            (Inr (rejected ''mailbox full'')) (Inr (rejected ''no credit''))"
      "exampleInput 30" "()"
      "fst (execute (scriptedWorker (Inr exampleSnapshot) (Inr exampleAIResponse)
            (Inr (rejected ''mailbox full'')) (Inr (rejected ''no credit'')))
          (freightDelayNotificationWorkflow (exampleInput 30)) ())"
      "snd (execute (scriptedWorker (Inr exampleSnapshot) (Inr exampleAIResponse)
            (Inr (rejected ''mailbox full'')) (Inr (rejected ''no credit'')))
          (freightDelayNotificationWorkflow (exampleInput 30)) ())"
      exampleRequest "rejected ''mailbox full''" exampleRequest "rejected ''no credit''"]
  by (simp add: example_defs loggingCompleted_def)

text \<open>
  The text the SMS channel sends is built from the request's \<open>delayMinutes\<close> alone; the
  composed message of the request is not part of it.
\<close>

lemma sms_text_ignores_composed_message:
  "createSMSMessage (request \<lparr> NotificationRequest.message := m \<rparr>) = createSMSMessage request"
  by (simp add: createSMSMessage_def)

subsection \<open>The simulated channels\<close>

lemma simulated_send_succeeds:
  "NotificationResponse.success (notificationService_sendDelayNotification now token request)"
  "messageId (notificationService_sendDelayNotification now token request) \<noteq> None"
  "NotificationResponse.success (notificationService_sendSMSNotification now token request)"
  "messageId (notificationService_sendSMSNotification now token request) \<noteq> None"
  by (simp_all add: notificationService_sendDelayNotification_def simulateEmailSending_def
      notificationService_sendSMSNotification_def simulateSMSSending_def)

lemma activity_send_succeeds:
  "sendDelayNotification now token request = Inr response \<Longrightarrow>
   NotificationResponse.success response"
  using simulated_send_succeeds(1) [of now token request]
  by (auto simp: sendDelayNotification_def split: if_splits)

lemma no_fallback_paths:
  "allPaths (freightDelayNotificationWorkflow input) (\<lambda>h res.
     list_all primarySendSucceeded h \<longrightarrow>
     list_all (\<lambda>ev. \<not> isSMSCall (fst ev)) h \<and>
     (\<forall>d. LogWorkflowStepCall ''Step 4 Warning: Notification Failed'' d \<notin> set (map fst h)) \<and>
     (\<forall>d. LogWorkflowStepCall ''Step 4 Failed: Both Email and SMS Failed'' d
            \<notin> set (map fst h)) \<and>
     \<not> (\<exists>r. res = Inr r \<and> delayDetected r \<and> \<not> notificationSent r))"
  unfolding freightDelayNotificationWorkflow_def
  by (simp add: await_def split_sum_all)

text \<open>
  C10. For every request the simulated email send and the simulated SMS send of the
  notification service return \<open>success: true\<close> with a message id. Hence, in every
  execution in which each response returned by the primary send step is one that the
  activity \<open>sendDelayNotification\<close> produces over that service, the SMS step is never
  scheduled, neither the fallback warning nor the both-failed step is logged, and no result
  has \<open>delayDetected: true\<close> with \<open>notificationSent: false\<close>.
\<close>

theorem simulated_channels_never_fall_back:
  assumes run: "execute wk (freightDelayNotificationWorkflow input) w = (res, hist)"
    and byService: "\<forall>q response.
      (SendDelayNotificationCall q, SendDelayNotificationResult (Inr response)) \<in> set hist \<longrightarrow>
      (\<exists>now token. sendDelayNotification now token q = Inr response)"
  shows "NotificationResponse.success (notificationService_sendDelayNotification t k request) \<and>
         messageId (notificationService_sendDelayNotification t k request) \<noteq> None \<and>
         NotificationResponse.success (notificationService_sendSMSNotification t k request) \<and>
         messageId (notificationService_sendSMSNotification t k request) \<noteq> None \<and>
         list_all (\<lambda>ev. \<not> isSMSCall (fst ev)) hist \<and>
         (\<forall>d. LogWorkflowStepCall ''Step 4 Warning: Notification Failed'' d
                \<notin> set (map fst hist)) \<and>
         (\<forall>d. LogWorkflowStepCall ''Step 4 Failed: Both Email and SMS Failed'' d
                \<notin> set (map fst hist)) \<and>
         \<not> (\<exists>r. res = Inr r \<and> delayDetected r \<and> \<not> notificationSent r)"
proof -
  have "primarySendSucceeded ev" if "ev \<in> set hist" for ev
  proof (cases ev rule: primarySendSucceeded.cases)
    case (1 q response)
    with that byService obtain now token where
      "sendDelayNotification now token q = Inr response"
      by blast
    then show ?thesis
      using 1 by (simp add: activity_send_succeeds)
  qed simp_all
  then have "list_all primarySendSucceeded hist"
    by (simp add: list_all_iff)
  with execution_satisfies [OF no_fallback_paths run] simulated_send_succeeds [of t k request]
  show ?thesis
    by blast
qed

text \<open>The worker that runs the activities over the services, on the example input.\<close>

theorem simulated_channels_never_fall_back_witness:
  "(case execute (serviceWorker (Inr exampleAIResponse))
          (freightDelayNotificationWorkflow (exampleInput 30)) exampleHost of
      (res, hist) \<Rightarrow>
        (\<forall>q response.
           (SendDelayNotificationCall q, SendDelayNotificationResult (Inr response)) \<in> set hist \<longrightarrow>
           (\<exists>now token. sendDelayNotification now token q = Inr response)) \<and>
        list_all (\<lambda>ev. \<not> isSMSCall (fst ev)) hist \<and>
        res = Inr \<lparr> delayDetected = True, WorkflowResult.delayMinutes = 45,
                notificationSent = True,
                WorkflowResult.message = Some
                  ''Delay notification sent successfully. Customer customer@example.com has been notified of 45 minute delay.'',
                WorkflowResult.error = None \<rparr>)"
proof -
  let ?E = "execute (serviceWorker (Inr exampleAIResponse))
          (freightDelayNotificationWorkflow (exampleInput 30)) exampleHost"
  have h: "\<forall>q response.
      (SendDelayNotificationCall q, SendDelayNotificationResult (Inr response)) \<in> set (snd ?E) \<longrightarrow>
      (\<exists>now token. sendDelayNotification now token q = Inr response)"
  proof (intro allI impI)
    fix q response
    assume "(SendDelayNotificationCall q, SendDelayNotificationResult (Inr response)) \<in> set (snd ?E)"
    then have "sendDelayNotification 1000 ''k3x9'' q = Inr response"
      by (simp add: example_defs)
    then show "\<exists>now token. sendDelayNotification now token q = Inr response"
      by blast
  qed
  have run: "?E = (fst ?E, snd ?E)"
    by simp
  from simulated_channels_never_fall_back [OF run h] h show ?thesis
    by (simp add: example_defs)
qed

subsection \<open>Failures of steps\<close>

text \<open>
  When every logging step completes, a failure of any other step is caught: the caller
  always receives a result.
\<close>

lemma no_fault_paths:
  "allPaths (freightDelayNotificationWorkflow input) (\<lambda>h res.
     loggingCompleted h \<longrightarrow> (\<exists>r. res = Inr r))"
  unfolding freightDelayNotificationWorkflow_def
  by (simp add: await_def loggingCompleted_def split_sum_all)

lemma result_when_logging_completes:
  assumes "execute wk (freightDelayNotificationWorkflow input) w = (res, hist)"
    and "loggingCompleted hist"
  shows "\<exists>r. res = Inr r"
  using execution_satisfies [OF no_fault_paths assms(1)] assms(2) by blast

text \<open>
  When every logging step completes, the failure of any other step is surfaced as the
  result \<open>{delayDetected: false, delayMinutes: 0, notificationSent: false, error}\<close>.
\<close>

lemma surfaced_paths:
  "allPaths (freightDelayNotificationWorkflow input) (\<lambda>h res.
     loggingCompleted h \<longrightarrow>
     (\<forall>ev \<in> set h. \<forall>e. failureOf (snd ev) = Some e \<longrightarrow>
        res = Inr \<lparr> delayDetected = False, WorkflowResult.delayMinutes = 0,
                notificationSent = False, WorkflowResult.message = None,
                WorkflowResult.error =
                  Some (case e of Error m \<Rightarrow> m | NonError \<Rightarrow> ''Unknown workflow error'') \<rparr>))"
  unfolding freightDelayNotificationWorkflow_def
  by (simp add: await_def loggingCompleted_def split_sum_all)

lemma step_failure_surfaced:
  assumes "execute wk (freightDelayNotificationWorkflow input) w = (res, hist)"
    and "loggingCompleted hist"
    and "(call, result) \<in> set hist" and "failureOf result = Some e"
  shows "res = Inr \<lparr> delayDetected = False, WorkflowResult.delayMinutes = 0,
                notificationSent = False, WorkflowResult.message = None,
                WorkflowResult.error =
                  Some (case e of Error m \<Rightarrow> m | NonError \<Rightarrow> ''Unknown workflow error'') \<rparr>"
  using execution_satisfies [OF surfaced_paths assms(1)] assms(2,3,4)
  by fastforce

text \<open>
  C5. A terminal failure of a step is to be surfaced to the caller as the result
  \<open>{delayDetected: false, delayMinutes: 0, notificationSent: false, error}\<close>, at whichever
  step it occurs. The logging step \<open>Workflow Started\<close> is awaited before the \<open>try\<close> block:
  when it fails, the caller receives the failure itself and no result.
\<close>

theorem initial_log_failure_escapes:
  "fst (execute (brokenLogWorker ''Workflow Started'' (Error ''Activity task failed'')
           (Inr exampleSnapshot) (Inr exampleAIResponse) (Inr (sent ''msg_1'')) (Inr (sent ''sms_1'')))
         (freightDelayNotificationWorkflow (exampleInput 30)) ()) =
   Inl (Error ''Activity task failed'')"
  by (simp add: example_defs)

text \<open>
  The logging step inside the \<open>catch\<close> block is not guarded either: when the fetch step
  fails and then the \<open>Workflow Error\<close> step fails, the caller receives that failure.
\<close>

lemma error_log_failure_escapes:
  "fst (execute (brokenLogWorker ''Workflow Error'' (Error ''Activity task failed'')
           (Inl (Error ''Invalid route: Origin and destination are required''))
           (Inr exampleAIResponse) (Inr (sent ''msg_1'')) (Inr (sent ''sms_1'')))
         (freightDelayNotificationWorkflow (exampleInput 30)) ()) =
   Inl (Error ''Activity task failed'')"
  by (simp add: example_defs)

subsection \<open>Traffic data\<close>

text \<open>
  C6. The condition of a snapshot is a function of its \<open>estimatedDelayMinutes\<close> alone, with
  fixed bands: for a delay \<open>d \<ge> 0\<close>, \<open>d < 15\<close> is light, \<open>15 \<le> d \<le> 29\<close> is moderate,
  \<open>30 \<le> d \<le> 44\<close> is heavy and \<open>d \<ge> 45\<close> is severe; the boundary values 14, 15, 29, 30,
  44 and 45 are light, moderate, moderate, heavy, heavy and severe.
\<close>

theorem classification_bands:
  "(0 \<le> d \<and> d < 15 \<longrightarrow> classifyDelay d = light) \<and>
   (15 \<le> d \<and> d \<le> 29 \<longrightarrow> classifyDelay d = moderate) \<and>
   (30 \<le> d \<and> d \<le> 44 \<longrightarrow> classifyDelay d = heavy) \<and>
   (45 \<le> d \<longrightarrow> classifyDelay d = severe) \<and>
   classifyDelay 14 = light \<and> classifyDelay 15 = moderate \<and> classifyDelay 29 = moderate \<and>
   classifyDelay 30 = heavy \<and> classifyDelay 44 = heavy \<and> classifyDelay 45 = severe \<and>
   TrafficData.trafficCondition (getMockTrafficData rnd r) =
     classifyDelay (estimatedDelayMinutes (getMockTrafficData rnd r))"
  by (simp add: classifyDelay_def getMockTrafficData_def Let_def)

theorem classification_bands_witness:
  "(0::int) \<le> 29 \<and> classifyDelay 29 = moderate \<and>
   estimatedDelayMinutes (getMockTrafficData (3 / 4) exampleRoute) = 45 \<and>
   TrafficData.trafficCondition (getMockTrafficData (3 / 4) exampleRoute) = severe"
  using classification_bands [of 29 "3 / 4" exampleRoute]
  by (simp add: classifyDelay_def getMockTrafficData_def Let_def)








subsection \<open>Retry policy\<close>

text \<open>
  C7. The delay computed after attempt \<open>n\<close> is
  \<open>min(initialInterval * backoffCoefficient^(n-1), maximumInterval)\<close>. Under the policy the
  workflow configures (1 second, coefficient 2, cap 10 seconds, 3 attempts) the delays
  before the 2nd and the 3rd attempt are 1 and 2 seconds, and a failure of attempt 3 is a
  terminal step failure.
\<close>

theorem retry_backoff:
  "retryDelay p n = min (initialInterval p * backoffCoefficient p ^ (n - 1)) (maximumInterval p) \<and>
   onAttemptFailure activityRetryPolicy False 1 = RetryAfter 1 \<and>
   onAttemptFailure activityRetryPolicy False 2 = RetryAfter 2 \<and>
   onAttemptFailure activityRetryPolicy classifiedTerminal 3 = TerminalFailure"
  by (simp add: retryDelay_def onAttemptFailure_def activityRetryPolicy_def)

theorem retry_backoff_witness:
  "retryDelay activityRetryPolicy 1 = 1 \<and> retryDelay activityRetryPolicy 2 = 2 \<and>
   retryDelay activityRetryPolicy 5 = 10 \<and>
   onAttemptFailure activityRetryPolicy False 3 = TerminalFailure"
  using retry_backoff [of activityRetryPolicy 1 False] retry_backoff [of activityRetryPolicy 2 False]
    retry_backoff [of activityRetryPolicy 5 False]
  by (simp add: activityRetryPolicy_def)

end
